theory Spec2Isabelle
  imports Complex_Main "HOL-Library.List_Lexorder" "HOL-Library.Product_Lexorder"
begin

section \<open>Values and errors\<close>

text \<open>
  The analyzer of \<^verbatim>\<open>src/llm/analyzer.ts\<close> works on what \<^verbatim>\<open>JSON.parse\<close> hands back, which
  TypeScript types as \<^verbatim>\<open>any\<close>.  The model keeps the whole value: the code never checks that
  \<^verbatim>\<open>parsed.cells\<close> is an array of strings.  Numbers are carried as rationals.  An object is
  its list of entries, one per key.
\<close>

datatype json =
    JNull
  | JBool bool
  | JNum rat
  | JStr string
  | JArr "json list"
  | JObj "(string \<times> json) list"

text \<open>
  What can be thrown: \<^verbatim>\<open>RangeError\<close> (\<^verbatim>\<open>Array(n)\<close> with an invalid length), \<^verbatim>\<open>TypeError\<close>
  (a property read on \<^verbatim>\<open>null\<close>/\<^verbatim>\<open>undefined\<close>, a call of something that is no function),
  the two \<^verbatim>\<open>new Error(...)\<close> of the repository, and whatever a collaborator (the backend
  client, sharp, the file system) rejects with.
\<close>

datatype error =
    RangeError
  | TypeError
  | DimensionsError
  | ParseFailure
  | Rejected string

text \<open>JavaScript truthiness, as used by \<^verbatim>\<open>parsed.cells || []\<close>.\<close>

fun truthy :: "json \<Rightarrow> bool" where
  "truthy JNull = False"
| "truthy (JBool b) = b"
| "truthy (JNum n) = (n \<noteq> 0)"
| "truthy (JStr s) = (s \<noteq> [])"
| "truthy (JArr xs) = True"
| "truthy (JObj kvs) = True"

text \<open>
  Key equality of a \<^verbatim>\<open>Map\<close> (SameValueZero): primitives by value, arrays and objects by
  identity.  Every array or object that comes out of \<^verbatim>\<open>JSON.parse\<close> is a fresh one, so an
  array or object key never equals a key that is already in the map.
\<close>

fun sameValueZero :: "json \<Rightarrow> json \<Rightarrow> bool" where
  "sameValueZero (JArr xs) b = False"
| "sameValueZero (JObj kvs) b = False"
| "sameValueZero a b = (a = b)"

section \<open>Vote aggregation (performInitialAnalysis, lines 441--454)\<close>

text \<open>\<^verbatim>\<open>results.flat()\<close>: one level; an element that is no array stays as it is.\<close>

fun flat :: "json list \<Rightarrow> json list" where
  "flat [] = []"
| "flat (JArr xs # rs) = xs @ flat rs"
| "flat (v # rs) = v # flat rs"

text \<open>
  \<^verbatim>\<open>cellCounts.set(cell, (cellCounts.get(cell) || 0) + 1)\<close> on a \<^verbatim>\<open>Map\<close>, kept as the list
  of its entries in insertion order (the order \<^verbatim>\<open>entries()\<close> yields).
\<close>

fun setCount :: "json \<Rightarrow> (json \<times> nat) list \<Rightarrow> (json \<times> nat) list" where
  "setCount cell [] = [(cell, 1)]"
| "setCount cell ((k, n) # kvs) =
     (if sameValueZero k cell then (k, n + 1) # kvs else (k, n) # setCount cell kvs)"

definition cellCounts :: "json list \<Rightarrow> (json \<times> nat) list" where
  "cellCounts cells = foldl (\<lambda>m cell. setCount cell m) [] cells"

text \<open>
  Modelled from the spec: \<^verbatim>\<open>String.prototype.localeCompare\<close> with \<^verbatim>\<open>{numeric: true}\<close> is a
  built-in of the JavaScript runtime, not code of the repository.  The spec words it as
  "row letter first, then the column compared as a number".  The model reads a string as
  a sequence of items, a maximal run of decimal digits being one item with the number it
  denotes and any other character an item of its own, and compares the sequences
  lexicographically: a number against a number by value, a number before a character, a
  character against a character by code, a proper prefix first.
\<close>

definition isDigit :: "char \<Rightarrow> bool" where
  "isDigit c = (48 \<le> (of_char c :: nat) \<and> (of_char c :: nat) \<le> 57)"

definition digitVal :: "char \<Rightarrow> nat" where
  "digitVal c = of_char c - 48"

fun scanItems :: "nat option \<Rightarrow> string \<Rightarrow> (nat \<times> nat) list" where
  "scanItems None [] = []"
| "scanItems (Some n) [] = [(0, n)]"
| "scanItems None (c # cs) =
     (if isDigit c then scanItems (Some (digitVal c)) cs
      else (1, of_char c) # scanItems None cs)"
| "scanItems (Some n) (c # cs) =
     (if isDigit c then scanItems (Some (10 * n + digitVal c)) cs
      else (0, n) # (1, of_char c) # scanItems None cs)"

definition collationKey :: "string \<Rightarrow> (nat \<times> nat) list" where
  "collationKey s = scanItems None s"

definition localeCompareNumeric :: "string \<Rightarrow> string \<Rightarrow> int" where
  "localeCompareNumeric a b =
     (if collationKey a < collationKey b then - 1
      else if collationKey b < collationKey a then 1
      else 0)"

text \<open>
  \<^verbatim>\<open>Array.prototype.sort(compare)\<close> is stable (ECMAScript 2019): with a consistent
  comparator its result is the one stable arrangement, which insertion from the left
  computes.
\<close>

fun insertBy :: "('a \<Rightarrow> 'a \<Rightarrow> int) \<Rightarrow> 'a \<Rightarrow> 'a list \<Rightarrow> 'a list" where
  "insertBy cmp x [] = [x]"
| "insertBy cmp x (y # ys) =
     (if cmp x y < 0 then x # y # ys else y # insertBy cmp x ys)"

definition arraySort :: "('a \<Rightarrow> 'a \<Rightarrow> int) \<Rightarrow> 'a list \<Rightarrow> 'a list" where
  "arraySort cmp xs = foldl (\<lambda>acc x. insertBy cmp x acc) [] xs"

fun asStrings :: "json list \<Rightarrow> string list option" where
  "asStrings [] = Some []"
| "asStrings (JStr s # xs) = map_option ((#) s) (asStrings xs)"
| "asStrings (v # xs) = None"

text \<open>
  \<^verbatim>\<open>.sort((a, b) => a.localeCompare(b, undefined, { numeric: true }))\<close>.  An array of fewer
  than two elements is returned without a call of the comparator.  The comparator needs
  a string as its receiver \<^verbatim>\<open>a\<close>: on a number, a boolean or \<^verbatim>\<open>null\<close> the read or the call of
  \<^verbatim>\<open>a.localeCompare\<close> throws a TypeError, which leaves \<^verbatim>\<open>sort\<close>.  In the array sorted here
  every value stands at least twice (the vote filter), the copies side by side, and a
  sort has to compare two equal neighbours with each other, so a value that is no string
  is the receiver of some call.
\<close>

definition sortCells :: "json list \<Rightarrow> error + json list" where
  "sortCells xs =
     (if length xs < 2 then Inr xs
      else case asStrings xs of
        None \<Rightarrow> Inl TypeError
      | Some ss \<Rightarrow> Inr (map JStr (arraySort localeCompareNumeric ss)))"

text \<open>
  Lines 441--454: count every element of the flattened results, keep the entries with a
  count of two or more, repeat each kept cell \<^verbatim>\<open>count\<close> times, sort.
\<close>

definition keptCells :: "(json \<times> nat) list \<Rightarrow> json list" where
  "keptCells entries =
     concat (map (\<lambda>(cell, count). replicate count cell)
       (filter (\<lambda>(cell, count). 2 \<le> count) entries))"

definition aggregateVotes :: "json list \<Rightarrow> error + json list" where
  "aggregateVotes results = sortCells (keptCells (cellCounts (flat results)))"

text \<open>A pass result of the expected shape: an array of cell strings.\<close>

definition cellArray :: "string list \<Rightarrow> json" where
  "cellArray cells = JArr (map JStr cells)"

text \<open>
  The spec's count for a cell: the number of passes that name it, a pass counted once
  however often it repeats the cell.
\<close>

definition passesNaming :: "string \<Rightarrow> string list list \<Rightarrow> nat" where
  "passesNaming c passes = length (filter (\<lambda>p. c \<in> set p) passes)"






section \<open>Temperature schedule (performInitialAnalysis, lines 392--399)\<close>

text \<open>
  A JavaScript number is a rational or one of the three values that are none.  In the
  temperature schedule below, rounding to IEEE 754 doubles is left out: its arithmetic
  is exact.  The cost is computed in doubles (further down).
\<close>

datatype jsnum = Num rat | PlusInfinity | MinusInfinity | NaN

text \<open>\<^verbatim>\<open>x / y\<close> on finite operands, \<^verbatim>\<open>y\<close> never the negative zero.\<close>

definition jsDivide :: "rat \<Rightarrow> rat \<Rightarrow> jsnum" where
  "jsDivide x y =
     (if y \<noteq> 0 then Num (x / y)
      else if x = 0 then NaN
      else if 0 < x then PlusInfinity
      else MinusInfinity)"

text \<open>\<^verbatim>\<open>x + v\<close> with a finite left operand.\<close>

fun jsAdd :: "rat \<Rightarrow> jsnum \<Rightarrow> jsnum" where
  "jsAdd x (Num y) = Num (x + y)"
| "jsAdd x v = v"

text \<open>\<^verbatim>\<open>instanceof\<close> of the client: one of the two shipped classes, or an injected object.\<close>

datatype clientClass = AnthropicClient | OpenAIClient | InjectedClient

text \<open>
  \<^verbatim>\<open>this.numPasses = config.numPasses || 4\<close> (line 158); the configured value is taken as
  an integer.
\<close>

definition configuredPasses :: "int option \<Rightarrow> int" where
  "configuredPasses n = (case n of None \<Rightarrow> 4 | Some k \<Rightarrow> if k = 0 then 4 else k)"

text \<open>
  \<^verbatim>\<open>Array(numPasses).fill(0).map((_, i) => low + (i * 0.6) / (numPasses - 1))\<close> with
  \<^verbatim>\<open>low\<close> 0.2 for the Anthropic client and 0.4 otherwise.  \<^verbatim>\<open>Array(n)\<close> throws a
  RangeError unless \<open>0 \<le> n < 2\<^sup>3\<^sup>2\<close>.
\<close>

definition temperatures :: "clientClass \<Rightarrow> int \<Rightarrow> error + jsnum list" where
  "temperatures cls numPasses =
     (if numPasses < 0 \<or> 4294967296 \<le> numPasses then Inl RangeError
      else Inr (map (\<lambda>i. jsAdd (if cls = AnthropicClient then 2 / 10 else 4 / 10)
                         (jsDivide (of_nat i * (6 / 10)) (of_int numPasses - 1)))
                 [0 ..< nat numPasses]))"

section \<open>Images and the image processor (transformImage)\<close>

text \<open>
  A region as the analyzer hands it to the renderer; the cells are what the first stage
  returned.
\<close>

datatype region = Region (regionTitle: string) (regionDescription: string)
  (regionDetails: string) (regionCells: "json list")

datatype annotationType = Highlight | Circle | Arrow

text \<open>
  The two overlays \<^verbatim>\<open>transformImage\<close> can push onto \<^verbatim>\<open>composites\<close>: the SVG of the grid
  generator (rows, columns, width, height) and the SVG of the highlighter (regions,
  annotations).  The SVG text itself is not modelled.
\<close>

datatype layer =
    GridLayer nat nat nat nat
  | HighlightLayer "region list" "annotationType list option"

text \<open>
  \<^verbatim>\<open>image: string | Buffer\<close>.  A buffer is either given bytes or the PNG that
  \<^verbatim>\<open>transformImage\<close> returned: the input it was made from and the overlays composited on
  it.
\<close>

datatype imageInput = FilePath string | BufferInput buffer
  and buffer = Bytes "nat list" | Png imageInput "layer list"

fun isBuffer :: "imageInput \<Rightarrow> bool" where
  "isBuffer (FilePath p) = False"
| "isBuffer (BufferInput b) = True"

fun isGridLayer :: "layer \<Rightarrow> bool" where
  "isGridLayer (GridLayer r c w h) = True"
| "isGridLayer (HighlightLayer rs an) = False"

record transformOptions =
  optImage :: imageInput
  optAddGrid :: bool
  optRegions :: "region list option"
  optRows :: nat
  optCols :: nat
  optAnnotations :: "annotationType list option"

section \<open>Backend client and runtime\<close>

record usage =
  input_tokens :: int
  output_tokens :: int

text \<open>
  What \<^verbatim>\<open>analyzePair\<close> resolves to.  The interface promises \<^verbatim>\<open>{text: string, usage?}\<close>; the
  analyzer also guards against no response and against a \<^verbatim>\<open>text\<close> that is no string
  (\<open>None\<close> here).
\<close>

datatype pairReply = NoReply | PairReply "string option" "usage option"

text \<open>
  What \<^verbatim>\<open>analyze\<close> resolves to: \<^verbatim>\<open>null\<close>/\<^verbatim>\<open>undefined\<close>, a plain string, or an object with
  \<^verbatim>\<open>text\<close> (\<open>None\<close> when absent) and \<^verbatim>\<open>usage\<close>.
\<close>

datatype analyzeReply = UndefinedReply | StringReply string | ObjectReply "string option" "usage option"

text \<open>
  The arguments of one \<^verbatim>\<open>analyzePair\<close> call.  The number of the call is part of the
  request: a backend need not answer two equal requests alike.
\<close>

datatype pairRequest = PairRequest (callIndex: nat) (sentOriginalImage: buffer)
  (sentGridImage: buffer) (sentPrompt: "string option") (sentTemperature: jsnum)

text \<open>
  The verification prompt, \<^verbatim>\<open>VERIFICATION_PROMPT_TEMPLATE(contiguous)\<close> with
  \<^verbatim>\<open>{prompt}\<close> and \<^verbatim>\<open>{cells}\<close> replaced, kept as the three values it is built from.
\<close>

datatype verificationPrompt = VerificationPrompt bool string "json list"

text \<open>
  The client: its class, \<^verbatim>\<open>getModel()\<close>, \<^verbatim>\<open>analyzePair\<close>, and its \<^verbatim>\<open>analyze\<close>, here
  \<open>analyzeSingle\<close> to keep it apart from the analyzer's \<^verbatim>\<open>analyze\<close>.
\<close>

record client =
  clientClass :: clientClass
  getModel :: string
  analyzePair :: "pairRequest \<Rightarrow> error + pairReply"
  analyzeSingle :: "buffer \<Rightarrow> verificationPrompt \<Rightarrow> error + analyzeReply"

text \<open>
  The collaborators outside the repository: sharp (\<^verbatim>\<open>metadata()\<close>, which yields width
  and height, an absent one read as 0; and everything after it, from rasterising the
  overlays to \<^verbatim>\<open>toBuffer()\<close>, which may reject), \<^verbatim>\<open>writeFile\<close>, the environment variable
  \<^verbatim>\<open>NODE_ENV\<close> and \<^verbatim>\<open>JSON.parse\<close> (\<open>None\<close> when it throws).
\<close>

record runtime =
  metadata :: "imageInput \<Rightarrow> error + (nat \<times> nat)"
  toBuffer :: "imageInput \<Rightarrow> layer list \<Rightarrow> error option"
  writeFile :: "string \<Rightarrow> buffer \<Rightarrow> error option"
  nodeEnvTest :: bool
  JSON_parse :: "string \<Rightarrow> json option"

text \<open>
  \<^verbatim>\<open>transformImage\<close> (image processor, lines 49--125).  The grid is composited only when
  \<^verbatim>\<open>options.addGrid && !Buffer.isBuffer(options.image)\<close>; the highlights when
  \<^verbatim>\<open>options.regions?.length\<close>.
\<close>

definition transformImage :: "runtime \<Rightarrow> transformOptions \<Rightarrow> error + buffer" where
  "transformImage rt options =
     (case metadata rt (optImage options) of
        Inl e \<Rightarrow> Inl e
      | Inr (width, height) \<Rightarrow>
          if width = 0 \<or> height = 0 then Inl DimensionsError
          else
            let grid =
                  (if optAddGrid options \<and> \<not> isBuffer (optImage options)
                   then [GridLayer (optRows options) (optCols options) width height]
                   else []);
                highlights =
                  (case optRegions options of
                     None \<Rightarrow> []
                   | Some [] \<Rightarrow> []
                   | Some (r # rs) \<Rightarrow> [HighlightLayer (r # rs) (optAnnotations options)]);
                composites = grid @ highlights
            in case toBuffer rt (optImage options) composites of
                 Some e \<Rightarrow> Inl e
               | None \<Rightarrow> Inr (Png (optImage options) composites))"

section \<open>The analyzer\<close>

text \<open>
  \<^verbatim>\<open>totalTokens = {input, output}\<close>; the two fields are \<open>tokInput\<close> and \<open>tokOutput\<close>
  here.  The \<^verbatim>\<open>tokens\<close> of the result extend them by \<^verbatim>\<open>total\<close> (\<open>tokTotal\<close>), \<^verbatim>\<open>cost\<close> and
  \<^verbatim>\<open>modelName\<close>.
\<close>

record tokenCounts =
  tokInput :: int
  tokOutput :: int

record tokenReport = tokenCounts +
  tokTotal :: int
  cost :: jsnum
  modelName :: string

record analyzer =
  client :: client
  numPasses :: int
  gridRows :: nat
  gridCols :: nat
  totalTokens :: tokenCounts

text \<open>
  \<^verbatim>\<open>this.totalTokens.input += response.usage.input_tokens || 0\<close> and the same for the
  output, under \<^verbatim>\<open>if (response.usage)\<close>.
\<close>

definition addUsage :: "usage option \<Rightarrow> tokenCounts \<Rightarrow> tokenCounts" where
  "addUsage u t =
     (case u of
        None \<Rightarrow> t
      | Some us \<Rightarrow> t\<lparr>tokInput := tokInput t + input_tokens us, tokOutput := tokOutput t + output_tokens us\<rparr>)"

text \<open>
  Lines 431--437: \<^verbatim>\<open>try { const parsed = JSON.parse(text); return parsed.cells || [] }
  catch { return [] }\<close>.  Reading \<^verbatim>\<open>cells\<close> of \<^verbatim>\<open>null\<close> throws inside the \<^verbatim>\<open>try\<close>; of any value
  that is no object with that key it is \<^verbatim>\<open>undefined\<close>.
\<close>

definition parsedCells :: "(string \<Rightarrow> json option) \<Rightarrow> string \<Rightarrow> json" where
  "parsedCells parse txt =
     (case parse txt of
        None \<Rightarrow> JArr []
      | Some (JObj kvs) \<Rightarrow>
          (case map_of kvs ''cells'' of
             None \<Rightarrow> JArr []
           | Some v \<Rightarrow> if truthy v then v else JArr [])
      | Some v \<Rightarrow> JArr [])"

text \<open>
  Lines 419--437, what one pass does with its response: the value it returns and the
  ledger after it.  An invalid response returns \<^verbatim>\<open>[]\<close> before the usage is added.
\<close>

fun settlePass :: "(string \<Rightarrow> json option) \<Rightarrow> pairReply \<Rightarrow> tokenCounts \<Rightarrow> json \<times> tokenCounts" where
  "settlePass parse NoReply t = (JArr [], t)"
| "settlePass parse (PairReply None u) t = (JArr [], t)"
| "settlePass parse (PairReply (Some txt) u) t = (parsedCells parse txt, addUsage u t)"

fun settlePasses :: "(string \<Rightarrow> json option) \<Rightarrow> pairReply list \<Rightarrow> tokenCounts \<Rightarrow> json list \<times> tokenCounts" where
  "settlePasses parse [] t = ([], t)"
| "settlePasses parse (r # rs) t =
     (case settlePass parse r t of
        (cells, t1) \<Rightarrow>
          (case settlePasses parse rs t1 of (rest, t2) \<Rightarrow> (cells # rest, t2)))"

text \<open>Lines 405--411: the bias added to the first and the last prompt.\<close>

definition adjustedPrompt :: "string option \<Rightarrow> int \<Rightarrow> nat \<Rightarrow> string option" where
  "adjustedPrompt prompt passes index =
     (if index = 0 then
        Some ((case prompt of None \<Rightarrow> [] | Some p \<Rightarrow> p) @
          '' Be liberal in your assessment - include any cell that appears to contain the requested feature, even if you're not completely certain.'')
      else if int index = passes - 1 then
        Some ((case prompt of None \<Rightarrow> [] | Some p \<Rightarrow> p) @
          '' Be extremely conservative in your assessment - only include cells where you are certain the requested feature is present.'')
      else prompt)"

text \<open>
  Lines 413--418: \<^verbatim>\<open>this.client.analyzePair(imageBuffer, imageBuffer, adjustedPrompt, temp)\<close>,
  one call per temperature.
\<close>

definition passRequests :: "analyzer \<Rightarrow> buffer \<Rightarrow> string option \<Rightarrow> jsnum list \<Rightarrow> pairRequest list" where
  "passRequests a imageBuffer prompt temps =
     map (\<lambda>(index, temp).
            PairRequest index imageBuffer imageBuffer
              (adjustedPrompt prompt (numPasses a) index) temp)
       (zip [0 ..< length temps] temps)"

text \<open>
  \<^verbatim>\<open>Promise.all\<close>: the results in the order of the calls, or the rejection of a call that
  rejects (here the first in the order of the calls).
\<close>

fun promiseAll :: "(error + 'a) list \<Rightarrow> error + 'a list" where
  "promiseAll [] = Inr []"
| "promiseAll (Inl e # rs) = Inl e"
| "promiseAll (Inr x # rs) = (case promiseAll rs of Inl e \<Rightarrow> Inl e | Inr xs \<Rightarrow> Inr (x # xs))"

text \<open>\<^verbatim>\<open>performInitialAnalysis\<close> (lines 388--455), with the ledger passed through.\<close>

definition performInitialAnalysis ::
    "runtime \<Rightarrow> analyzer \<Rightarrow> buffer \<Rightarrow> string option \<Rightarrow> tokenCounts \<Rightarrow> error + (json list \<times> tokenCounts)" where
  "performInitialAnalysis rt a imageBuffer prompt t =
     (case temperatures (clientClass (client a)) (numPasses a) of
        Inl e \<Rightarrow> Inl e
      | Inr temps \<Rightarrow>
          (case promiseAll (map (analyzePair (client a)) (passRequests a imageBuffer prompt temps)) of
             Inl e \<Rightarrow> Inl e
           | Inr replies \<Rightarrow>
               (case settlePasses (JSON_parse rt) replies t of
                  (results, t1) \<Rightarrow>
                    (case aggregateVotes results of
                       Inl e \<Rightarrow> Inl e
                     | Inr allCells \<Rightarrow> Inr (allCells, t1)))))"

text \<open>
  \<^verbatim>\<open>performAnalysis\<close> (lines 457--482).  A response that is \<^verbatim>\<open>null\<close> or \<^verbatim>\<open>undefined\<close> fails on
  \<^verbatim>\<open>response.usage\<close>; a text that \<^verbatim>\<open>JSON.parse\<close> rejects ends in
  \<^verbatim>\<open>throw new Error("Failed to parse analysis response: ...")\<close>.
\<close>

definition performAnalysis ::
    "runtime \<Rightarrow> analyzer \<Rightarrow> buffer \<Rightarrow> verificationPrompt \<Rightarrow> tokenCounts \<Rightarrow> error + (json \<times> tokenCounts)" where
  "performAnalysis rt a imageBuffer prompt t =
     (case analyzeSingle (client a) imageBuffer prompt of
        Inl e \<Rightarrow> Inl e
      | Inr UndefinedReply \<Rightarrow> Inl TypeError
      | Inr (StringReply s) \<Rightarrow>
          (case JSON_parse rt s of
             None \<Rightarrow> Inl ParseFailure
           | Some v \<Rightarrow> Inr (v, t))
      | Inr (ObjectReply txt u) \<Rightarrow>
          (case JSON_parse rt (case txt of None \<Rightarrow> [] | Some s \<Rightarrow> s) of
             None \<Rightarrow> Inl ParseFailure
           | Some v \<Rightarrow> Inr (v, addUsage u t)))"

subsection \<open>Double arithmetic\<close>

text \<open>
  The cost is computed in IEEE 754 doubles.  A finite double is carried as the rational
  it is; the sign of a zero is not kept.  \<open>binaryExponent x\<close> is \<open>\<lfloor>log\<^sub>2 \<bar>x\<bar>\<rfloor>\<close> for
  \<open>x \<noteq> 0\<close>, found by halving a value from 1 upwards and doubling a value below 1.
\<close>

function halvings :: "rat \<Rightarrow> int" where
  "halvings x = (if x < 2 then 0 else halvings (x / 2) + 1)"
  by pat_completeness auto
termination
proof (relation "measure (\<lambda>x. nat \<lfloor>x\<rfloor>)")
  show "wf (measure (\<lambda>x::rat. nat \<lfloor>x\<rfloor>))" by simp
next
  fix x :: rat
  assume "\<not> x < 2"
  then have "2 \<le> x" by simp
  then have "\<lfloor>x / 2\<rfloor> < \<lfloor>x\<rfloor>" "0 < \<lfloor>x\<rfloor>"
    by (simp_all add: floor_less_iff le_floor_iff) linarith+
  then show "(x / 2, x) \<in> measure (\<lambda>x. nat \<lfloor>x\<rfloor>)" by simp
qed

declare halvings.simps [simp del]

function doublings :: "rat \<Rightarrow> int" where
  "doublings x = (if x \<le> 0 \<or> 1 \<le> x then 0 else doublings (2 * x) + 1)"
  by pat_completeness auto
termination
proof (relation "measure (\<lambda>x. nat \<lfloor>1 / x\<rfloor>)")
  show "wf (measure (\<lambda>x::rat. nat \<lfloor>1 / x\<rfloor>))" by simp
next
  fix x :: rat
  assume "\<not> (x \<le> 0 \<or> 1 \<le> x)"
  then have x: "0 < x" "x < 1" by simp_all
  define y where "y = 1 / x"
  have y: "1 < y" using x by (simp add: y_def)
  have half: "1 / (2 * x) = y / 2" by (simp add: y_def)
  have "\<lfloor>y / 2\<rfloor> < \<lfloor>y\<rfloor>"
  proof (cases "2 \<le> y")
    case True
    have "of_int \<lfloor>y / 2\<rfloor> \<le> y / 2" by (rule of_int_floor_le)
    then have "of_int (\<lfloor>y / 2\<rfloor> + 1) \<le> y / 2 + 1" by (simp del: of_int_floor_le)
    also have "\<dots> \<le> y" using True by simp
    finally have "\<lfloor>y / 2\<rfloor> + 1 \<le> \<lfloor>y\<rfloor>" by (simp only: le_floor_iff)
    then show ?thesis by linarith
  next
    case False
    then have "\<lfloor>y / 2\<rfloor> < 1" by (simp add: floor_less_iff)
    moreover have "1 \<le> \<lfloor>y\<rfloor>" using y by (simp add: le_floor_iff)
    ultimately show ?thesis by linarith
  qed
  then have lt: "\<lfloor>1 / (2 * x)\<rfloor> < \<lfloor>1 / x\<rfloor>"
    unfolding half unfolding y_def .
  have "1 \<le> \<lfloor>y\<rfloor>" using y by (simp add: le_floor_iff)
  then have pos: "0 < \<lfloor>1 / x\<rfloor>" unfolding y_def by linarith
  show "(2 * x, x) \<in> measure (\<lambda>x. nat \<lfloor>1 / x\<rfloor>)"
    unfolding in_measure zless_nat_conj using lt pos by (rule_tac conjI)
qed

declare doublings.simps [simp del]

definition binaryExponent :: "rat \<Rightarrow> int" where
  "binaryExponent x = (if 1 \<le> \<bar>x\<bar> then halvings \<bar>x\<bar> else - doublings \<bar>x\<bar>)"

definition twoToThe :: "int \<Rightarrow> rat" where
  "twoToThe e = (if 0 \<le> e then 2 ^ nat e else 1 / 2 ^ nat (- e))"

text \<open>Rounding to the nearest integer, a tie to the even one.\<close>

definition roundHalfEven :: "rat \<Rightarrow> int" where
  "roundHalfEven y =
     (if y - of_int \<lfloor>y\<rfloor> < 1 / 2 then \<lfloor>y\<rfloor>
      else if 1 / 2 < y - of_int \<lfloor>y\<rfloor> then \<lfloor>y\<rfloor> + 1
      else if even \<lfloor>y\<rfloor> then \<lfloor>y\<rfloor> else \<lfloor>y\<rfloor> + 1)"

text \<open>
  Round to nearest, ties to even, with a significand of 53 bits and the least exponent
  of the subnormal numbers: \<open>x\<close> is rounded to a multiple of \<open>2\<^sup>e\<close> with
  \<open>e = max (binaryExponent x - 52) (- 1074)\<close>.
\<close>

definition nearestDouble :: "rat \<Rightarrow> rat" where
  "nearestDouble x =
     (if x = 0 then 0
      else of_int (roundHalfEven (x / twoToThe (max (binaryExponent x - 52) (- 1074)))) *
           twoToThe (max (binaryExponent x - 52) (- 1074)))"

text \<open>The double an exact result is rounded to: an infinity from \<open>2\<^sup>1\<^sup>0\<^sup>2\<^sup>4\<close> on.\<close>

definition toDouble :: "rat \<Rightarrow> jsnum" where
  "toDouble x =
     (if 1024 \<le> binaryExponent (nearestDouble x) then
        (if 0 < x then PlusInfinity else MinusInfinity)
      else Num (nearestDouble x))"

text \<open>\<^verbatim>\<open>x * y\<close>, \<^verbatim>\<open>x / y\<close> and \<^verbatim>\<open>x + y\<close> on numbers; a zero divisor is taken as the positive zero.\<close>

fun numTimes :: "jsnum \<Rightarrow> jsnum \<Rightarrow> jsnum" where
  "numTimes (Num x) (Num y) = toDouble (x * y)"
| "numTimes NaN v = NaN"
| "numTimes v NaN = NaN"
| "numTimes (Num x) PlusInfinity = (if x = 0 then NaN else if 0 < x then PlusInfinity else MinusInfinity)"
| "numTimes (Num x) MinusInfinity = (if x = 0 then NaN else if 0 < x then MinusInfinity else PlusInfinity)"
| "numTimes PlusInfinity (Num y) = (if y = 0 then NaN else if 0 < y then PlusInfinity else MinusInfinity)"
| "numTimes MinusInfinity (Num y) = (if y = 0 then NaN else if 0 < y then MinusInfinity else PlusInfinity)"
| "numTimes PlusInfinity PlusInfinity = PlusInfinity"
| "numTimes PlusInfinity MinusInfinity = MinusInfinity"
| "numTimes MinusInfinity PlusInfinity = MinusInfinity"
| "numTimes MinusInfinity MinusInfinity = PlusInfinity"

fun numOver :: "jsnum \<Rightarrow> jsnum \<Rightarrow> jsnum" where
  "numOver (Num x) (Num y) =
     (if y \<noteq> 0 then toDouble (x / y)
      else if x = 0 then NaN
      else if 0 < x then PlusInfinity
      else MinusInfinity)"
| "numOver NaN v = NaN"
| "numOver v NaN = NaN"
| "numOver (Num x) PlusInfinity = Num 0"
| "numOver (Num x) MinusInfinity = Num 0"
| "numOver PlusInfinity (Num y) = (if 0 \<le> y then PlusInfinity else MinusInfinity)"
| "numOver MinusInfinity (Num y) = (if 0 \<le> y then MinusInfinity else PlusInfinity)"
| "numOver PlusInfinity PlusInfinity = NaN"
| "numOver PlusInfinity MinusInfinity = NaN"
| "numOver MinusInfinity PlusInfinity = NaN"
| "numOver MinusInfinity MinusInfinity = NaN"

fun numPlus :: "jsnum \<Rightarrow> jsnum \<Rightarrow> jsnum" where
  "numPlus (Num x) (Num y) = toDouble (x + y)"
| "numPlus NaN v = NaN"
| "numPlus v NaN = NaN"
| "numPlus PlusInfinity MinusInfinity = NaN"
| "numPlus MinusInfinity PlusInfinity = NaN"
| "numPlus PlusInfinity v = PlusInfinity"
| "numPlus MinusInfinity v = MinusInfinity"
| "numPlus (Num x) v = v"

text \<open>
  A count of the ledger as the number it is: the ledger holds integers, which are
  doubles up to \<open>2\<^sup>5\<^sup>3\<close> in magnitude.
\<close>

definition ledgerNumber :: "int \<Rightarrow> jsnum" where
  "ledgerNumber n = toDouble (of_int n)"

subsection \<open>The price table and the cost\<close>

text \<open>
  The price table \<^verbatim>\<open>MODEL_PRICING\<close> (llm types, lines 10--23), dollars per million tokens:
  the three entries of the object literal, each price the double its literal denotes.
\<close>

record price =
  inputPrice :: rat
  outputPrice :: rat

definition MODEL_PRICING :: "string \<Rightarrow> price option" where
  "MODEL_PRICING model =
     (if model = ''gpt-4.1'' then Some \<lparr>inputPrice = 2, outputPrice = 8\<rparr>
      else if model = ''gpt-4.1-mini'' then
        Some \<lparr>inputPrice = nearestDouble (4 / 10), outputPrice = nearestDouble (16 / 10)\<rparr>
      else if model = ''claude-3-7-sonnet-latest'' then Some \<lparr>inputPrice = 3, outputPrice = 15\<rparr>
      else None)"

text \<open>
  \<^verbatim>\<open>MODEL_PRICING[model]\<close> is a property read on an object literal: it yields the entry
  under the key, or, for a name that is no key of the table, the member of that name
  that every object inherits from \<^verbatim>\<open>Object.prototype\<close>, or \<^verbatim>\<open>undefined\<close>.
\<close>

definition objectPrototypeMembers :: "string list" where
  "objectPrototypeMembers =
     [''constructor'', ''hasOwnProperty'', ''isPrototypeOf'', ''propertyIsEnumerable'',
      ''toLocaleString'', ''toString'', ''valueOf'', ''__proto__'',
      ''__defineGetter__'', ''__defineSetter__'', ''__lookupGetter__'', ''__lookupSetter__'']"

datatype pricingRead = OwnEntry price | InheritedMember | NoProperty

definition readPricing :: "string \<Rightarrow> pricingRead" where
  "readPricing model =
     (case MODEL_PRICING model of
        Some pricing \<Rightarrow> OwnEntry pricing
      | None \<Rightarrow> if model \<in> set objectPrototypeMembers then InheritedMember else NoProperty)"

text \<open>
  \<^verbatim>\<open>calculateCost\<close> (lines 186--211).  Only \<^verbatim>\<open>undefined\<close> is falsy under \<^verbatim>\<open>!pricing\<close>.  An
  inherited member is a function or an object with neither \<^verbatim>\<open>input\<close> nor \<^verbatim>\<open>output\<close>, so
  both products, both quotients and their sum are \<^verbatim>\<open>NaN\<close>.  A client of neither class
  falls through to \<^verbatim>\<open>return 0\<close>.
\<close>

definition calculateCost :: "client \<Rightarrow> tokenCounts \<Rightarrow> jsnum" where
  "calculateCost c tokens =
     (if clientClass c = OpenAIClient then
        (case readPricing (getModel c) of
           NoProperty \<Rightarrow> Num 0
         | InheritedMember \<Rightarrow> NaN
         | OwnEntry pricing \<Rightarrow>
             numPlus
               (numOver (numTimes (ledgerNumber (tokInput tokens)) (Num (inputPrice pricing)))
                  (Num 1000000))
               (numOver (numTimes (ledgerNumber (tokOutput tokens)) (Num (outputPrice pricing)))
                  (Num 1000000)))
      else if clientClass c = AnthropicClient then
        (case readPricing (getModel c) of
           NoProperty \<Rightarrow> Num 0
         | InheritedMember \<Rightarrow> NaN
         | OwnEntry pricing \<Rightarrow>
             numPlus
               (numOver (numTimes (ledgerNumber (tokInput tokens)) (Num (inputPrice pricing)))
                  (Num 1000000))
               (numOver (numTimes (ledgerNumber (tokOutput tokens)) (Num (outputPrice pricing)))
                  (Num 1000000)))
      else Num 0)"

subsection \<open>The invocation\<close>

text \<open>Lines 333--338: the model name put into the result.\<close>

definition activeModel :: "client \<Rightarrow> string" where
  "activeModel c =
     (if clientClass c = OpenAIClient then getModel c
      else if clientClass c = AnthropicClient then getModel c
      else ''unknown'')"

text \<open>
  Lines 297--329, the logging after the verification: it reads
  \<^verbatim>\<open>verifiedAnalysis.regions\<close> as an array and \<^verbatim>\<open>region.cells\<close> of each region as an array
  (\<^verbatim>\<open>forEach\<close>, \<^verbatim>\<open>join\<close>, \<^verbatim>\<open>flatMap\<close>), and throws a TypeError on any other shape.  It yields
  the entries of the decoded object, which the result spreads.
\<close>

fun loggableRegion :: "json \<Rightarrow> bool" where
  "loggableRegion (JObj kvs) = (case map_of kvs ''cells'' of Some (JArr cs) \<Rightarrow> True | _ \<Rightarrow> False)"
| "loggableRegion v = False"

definition logVerified :: "json \<Rightarrow> error + (string \<times> json) list" where
  "logVerified verifiedAnalysis =
     (case verifiedAnalysis of
        JObj kvs \<Rightarrow>
          (case map_of kvs ''regions'' of
             Some (JArr rs) \<Rightarrow> if list_all loggableRegion rs then Inr kvs else Inl TypeError
           | _ \<Rightarrow> Inl TypeError)
      | _ \<Rightarrow> Inl TypeError)"

text \<open>
  Lines 253--261: the highlighted image is written to
  \<^verbatim>\<open>output/<name>.verification<ext>\<close> when a path is given and \<^verbatim>\<open>NODE_ENV\<close> is not
  \<^verbatim>\<open>test\<close>; \<^verbatim>\<open>writeFile\<close> is handed the image path the name is derived from.
\<close>

definition saveVerification :: "runtime \<Rightarrow> string option \<Rightarrow> buffer \<Rightarrow> error option" where
  "saveVerification rt imagePath highlightedImage =
     (case imagePath of
        None \<Rightarrow> None
      | Some p \<Rightarrow> if p \<noteq> [] \<and> \<not> nodeEnvTest rt then writeFile rt p highlightedImage else None)"

text \<open>The two option objects \<^verbatim>\<open>analyze\<close> hands to \<^verbatim>\<open>transformImage\<close> (lines 224--231, 238--251).\<close>

definition gridOverlayOptions :: "analyzer \<Rightarrow> buffer \<Rightarrow> transformOptions" where
  "gridOverlayOptions a imageBuffer =
     \<lparr>optImage = BufferInput imageBuffer, optAddGrid = True, optRegions = None,
      optRows = gridRows a, optCols = gridCols a, optAnnotations = None\<rparr>"

definition highlightOptions :: "analyzer \<Rightarrow> buffer \<Rightarrow> json list \<Rightarrow> transformOptions" where
  "highlightOptions a imageBuffer initialCells =
     \<lparr>optImage = BufferInput imageBuffer, optAddGrid = True,
      optRegions = Some [Region [] ''Initial pass'' ''Pending verification'' initialCells],
      optRows = gridRows a, optCols = gridCols a, optAnnotations = Some [Highlight]\<rparr>"

text \<open>
  The result of \<^verbatim>\<open>analyze\<close>: \<^verbatim>\<open>{...verifiedAnalysis, tokens: {...}}\<close>, the entries of the
  decoded object other than \<^verbatim>\<open>tokens\<close>, and the token report.
\<close>

record analysisResponse =
  verifiedFields :: "(string \<times> json) list"
  tokens :: tokenReport

text \<open>
  Lines 219--261 of \<^verbatim>\<open>analyze\<close>: the ledger is reset, the grid overlay is requested, the
  consensus passes run, the highlighted image is made and saved.  The stage yields the
  aggregated cells, the highlighted image and the ledger.
\<close>

definition consensusStage ::
    "runtime \<Rightarrow> analyzer \<Rightarrow> buffer \<Rightarrow> string option \<Rightarrow> string option \<Rightarrow>
     error + (json list \<times> buffer \<times> tokenCounts)" where
  "consensusStage rt a imageBuffer prompt imagePath =
     (let t0 = \<lparr>tokInput = 0, tokOutput = 0\<rparr> in
      case transformImage rt (gridOverlayOptions a imageBuffer) of
        Inl e \<Rightarrow> Inl e
      | Inr gridImage \<Rightarrow>
          (case performInitialAnalysis rt a gridImage prompt t0 of
             Inl e \<Rightarrow> Inl e
           | Inr (initialCells, t1) \<Rightarrow>
               (case transformImage rt (highlightOptions a imageBuffer initialCells) of
                  Inl e \<Rightarrow> Inl e
                | Inr highlightedImage \<Rightarrow>
                    (case saveVerification rt imagePath highlightedImage of
                       Some e \<Rightarrow> Inl e
                     | None \<Rightarrow> Inr (initialCells, highlightedImage, t1)))))"

text \<open>
  \<^verbatim>\<open>analyze\<close> (lines 213--350): the stage above, then the verification call, the logging
  and the result.  Beside the result stands the ledger \<^verbatim>\<open>this.totalTokens\<close> is left with.
\<close>

definition analyze ::
    "runtime \<Rightarrow> analyzer \<Rightarrow> buffer \<Rightarrow> string option \<Rightarrow> string option \<Rightarrow> bool option \<Rightarrow>
     error + (analysisResponse \<times> tokenCounts)" where
  "analyze rt a imageBuffer prompt imagePath contiguousRegions =
     (case consensusStage rt a imageBuffer prompt imagePath of
        Inl e \<Rightarrow> Inl e
      | Inr (initialCells, highlightedImage, t1) \<Rightarrow>
          (case performAnalysis rt a highlightedImage
                  (VerificationPrompt (case contiguousRegions of None \<Rightarrow> False | Some b \<Rightarrow> b)
                     (case prompt of None \<Rightarrow> [] | Some p \<Rightarrow> p) initialCells) t1 of
             Inl e \<Rightarrow> Inl e
           | Inr (verifiedAnalysis, t2) \<Rightarrow>
               (case logVerified verifiedAnalysis of
                  Inl e \<Rightarrow> Inl e
                | Inr logged \<Rightarrow>
                    Inr (\<lparr>verifiedFields = filter (\<lambda>(k, v). k \<noteq> ''tokens'') logged,
                          tokens = \<lparr>tokInput = tokInput t2, tokOutput = tokOutput t2,
                                    tokTotal = tokInput t2 + tokOutput t2,
                                    cost = calculateCost (client a) t2,
                                    modelName = activeModel (client a)\<rparr>\<rparr>,
                         t2))))"

section \<open>Cell labels (generateLabels, boundingBoxToGridCells)\<close>

text \<open>
  A JavaScript string is a sequence of 16-bit code units.  \<^verbatim>\<open>String.fromCharCode(n)\<close> is
  the one unit \<open>n mod 2\<^sup>1\<^sup>6\<close>; a non-negative integer below \<open>10\<^sup>2\<^sup>1\<close> is printed in
  decimal.
\<close>

definition fromCharCode :: "nat \<Rightarrow> nat" where
  "fromCharCode n = n mod 65536"

function decimal :: "nat \<Rightarrow> nat list" where
  "decimal n = (if n < 10 then [48 + n] else decimal (n div 10) @ [48 + n mod 10])"
  by pat_completeness auto
termination
  by (relation "measure id") auto

declare decimal.simps [simp del]

definition utf16 :: "string \<Rightarrow> nat list" where
  "utf16 s = map of_char s"

text \<open>
  The label of the cell in row \<^verbatim>\<open>row\<close> and column \<^verbatim>\<open>col\<close>, both counted from 0:
  \<^verbatim>\<open>`${String.fromCharCode(65 + row)}${col + 1}`\<close> in \<^verbatim>\<open>generateLabels\<close> (line 98) and
  \<^verbatim>\<open>String.fromCharCode(65 + row) + (col + 1)\<close> in \<^verbatim>\<open>boundingBoxToGridCells\<close> (line 39).
  Neither place checks the row.
\<close>

definition cellId :: "nat \<Rightarrow> nat \<Rightarrow> nat list" where
  "cellId row col = fromCharCode (65 + row) # decimal (col + 1)"

text \<open>
  \<^verbatim>\<open>generateLabels\<close> (lines 88--106): one label per cell, row by row, for \<^verbatim>\<open>rows\<close> and
  \<^verbatim>\<open>cols\<close> that are array lengths; the model keeps the label texts, in the order in which
  their \<^verbatim>\<open><text>\<close> elements are joined.
\<close>

definition generateLabels :: "nat \<Rightarrow> nat \<Rightarrow> nat list list" where
  "generateLabels rows cols =
     concat (map (\<lambda>row. map (\<lambda>col. cellId row col) [0 ..< cols]) [0 ..< rows])"

section \<open>Reading the pipeline\<close>


fun countedUsage :: "pairReply \<Rightarrow> usage option" where
  "countedUsage NoReply = None"
| "countedUsage (PairReply None u) = None"
| "countedUsage (PairReply (Some txt) u) = u"



fun replyText :: "analyzeReply \<Rightarrow> string option" where
  "replyText UndefinedReply = None"
| "replyText (StringReply s) = Some s"
| "replyText (ObjectReply txt u) = Some (case txt of None \<Rightarrow> [] | Some s \<Rightarrow> s)"

text \<open>
  A consensus reply that cannot be read: no response, a text that is no string, or a text
  that \<^verbatim>\<open>JSON.parse\<close> rejects.
\<close>

fun undecodablePass :: "(string \<Rightarrow> json option) \<Rightarrow> pairReply \<Rightarrow> bool" where
  "undecodablePass parse NoReply = True"
| "undecodablePass parse (PairReply None u) = True"
| "undecodablePass parse (PairReply (Some body) u) = (parse body = None)"



text \<open>
  The cost formula of the claim, \<^verbatim>\<open>input * price.input / 1e6 + output * price.output / 1e6\<close>,
  as JavaScript evaluates the expression: from left to right, every product, quotient
  and sum rounded to a double.
\<close>

definition costFormula :: "price \<Rightarrow> int \<Rightarrow> int \<Rightarrow> jsnum" where
  "costFormula pricing inputTokens outputTokens =
     numPlus
       (numOver (numTimes (ledgerNumber inputTokens) (Num (inputPrice pricing))) (Num 1000000))
       (numOver (numTimes (ledgerNumber outputTokens) (Num (outputPrice pricing))) (Num 1000000))"

text \<open>
  The \<^verbatim>\<open>analyzePair\<close> calls of one \<^verbatim>\<open>analyze\<close>: the requests \<^verbatim>\<open>performInitialAnalysis\<close> maps
  over, for the image \<^verbatim>\<open>analyze\<close> passes to it.
\<close>

definition consensusRequests ::
    "runtime \<Rightarrow> analyzer \<Rightarrow> buffer \<Rightarrow> string option \<Rightarrow> error + pairRequest list" where
  "consensusRequests rt a imageBuffer prompt =
     (case transformImage rt (gridOverlayOptions a imageBuffer) of
        Inl e \<Rightarrow> Inl e
      | Inr gridImage \<Rightarrow>
          (case temperatures (clientClass (client a)) (numPasses a) of
             Inl e \<Rightarrow> Inl e
           | Inr temps \<Rightarrow> Inr (passRequests a gridImage prompt temps)))"

section \<open>Test doubles\<close>

text \<open>
  The inputs the examples run on, after the mocks of \<^verbatim>\<open>analyzer.test.ts\<close>: response texts,
  what \<^verbatim>\<open>JSON.parse\<close> yields on them (\<open>exampleParse\<close> is that table; a text outside it is one
  that \<^verbatim>\<open>JSON.parse\<close> rejects), an image processor that succeeds on every image, and
  clients that answer by the number of the call.  The analyzer starts with a ledger left
  over from an earlier invocation.
\<close>

definition cellsB2Text :: string where
  \<open>cellsB2Text = ''{"cells":["B2"]}''\<close>

definition cellsAsStringText :: string where
  \<open>cellsAsStringText = ''{"cells":"B2"}''\<close>

definition cellsAsNumbersText :: string where
  \<open>cellsAsNumbersText = ''{"cells":[7,7]}''\<close>

definition rustRegionsText :: string where
  \<open>rustRegionsText = ''{"regions":[{"title":"Rust","cells":["B2"]}],"summary":"found rust"}''\<close>

definition exampleParse :: "string \<Rightarrow> json option" where
  "exampleParse txt =
     (if txt = cellsB2Text then Some (JObj [(''cells'', JArr [JStr ''B2''])])
      else if txt = cellsAsStringText then Some (JObj [(''cells'', JStr ''B2'')])
      else if txt = cellsAsNumbersText then Some (JObj [(''cells'', JArr [JNum 7, JNum 7])])
      else if txt = rustRegionsText then
        Some (JObj [(''regions'', JArr [JObj [(''title'', JStr ''Rust''), (''cells'', JArr [JStr ''B2''])]]),
                    (''summary'', JStr ''found rust'')])
      else None)"

definition exampleRuntime :: runtime where
  "exampleRuntime =
     \<lparr>metadata = (\<lambda>img. Inr (100, 100)), toBuffer = (\<lambda>img layers. None),
      writeFile = (\<lambda>path img. None), nodeEnvTest = True, JSON_parse = exampleParse\<rparr>"

text \<open>
  A pass reply with the text \<open>txt\<close> and a usage of 10 input and 2 output tokens, and a
  verification reply with a usage of 30 and 5.
\<close>

definition answer :: "string \<Rightarrow> pairReply" where
  "answer txt = PairReply (Some txt) (Some \<lparr>input_tokens = 10, output_tokens = 2\<rparr>)"

definition verdict :: "string \<Rightarrow> analyzeReply" where
  "verdict txt = ObjectReply (Some txt) (Some \<lparr>input_tokens = 30, output_tokens = 5\<rparr>)"

text \<open>
  A client whose \<open>i\<close>-th consensus call resolves to the \<open>i\<close>-th of \<open>replies\<close> (to no
  response beyond them) and whose verification call resolves to \<open>final\<close>.
\<close>

definition exampleClient :: "clientClass \<Rightarrow> string \<Rightarrow> pairReply list \<Rightarrow> analyzeReply \<Rightarrow> client" where
  "exampleClient cls model replies final =
     \<lparr>clientClass = cls, getModel = model,
      analyzePair = (\<lambda>request.
        if callIndex request < length replies then Inr (replies ! callIndex request)
        else Inr NoReply),
      analyzeSingle = (\<lambda>img prompt. Inr final)\<rparr>"

definition exampleAnalyzer :: "client \<Rightarrow> int \<Rightarrow> analyzer" where
  "exampleAnalyzer c passes =
     \<lparr>client = c, numPasses = passes, gridRows = 5, gridCols = 5,
      totalTokens = \<lparr>tokInput = 1000, tokOutput = 1000\<rparr>\<rparr>"

section \<open>Lemmas on the aggregation\<close>


lemma flat_cellArrays: "flat (map cellArray passes) = map JStr (concat passes)"
  by (induction passes) (simp_all add: cellArray_def)

lemma setCount_str_fst:
  "map fst (setCount (JStr c) m) =
     (if JStr c \<in> fst ` set m then map fst m else map fst m @ [JStr c])"
proof (induction m)
  case Nil
  show ?case by simp
next
  case (Cons kv m)
  obtain k n where kv: "kv = (k, n)" by (cases kv)
  show ?case using Cons.IH by (cases k) (auto simp: kv)
qed

lemma setCount_str_map_of:
  "map_of (setCount (JStr c) m) k =
     (if k = JStr c then Some (case map_of m (JStr c) of None \<Rightarrow> 1 | Some n \<Rightarrow> n + 1)
      else map_of m k)"
proof (induction m)
  case Nil
  show ?case by simp
next
  case (Cons kv m)
  obtain k' n where kv: "kv = (k', n)" by (cases kv)
  show ?case using Cons.IH by (cases k') (auto simp: kv)
qed

lemma cellCounts_snoc: "cellCounts (xs @ [x]) = setCount x (cellCounts xs)"
  by (simp add: cellCounts_def)

lemma cellCounts_fst_set: "fst ` set (cellCounts (map JStr cs)) = JStr ` set cs"
proof (induction cs rule: rev_induct)
  case Nil
  show ?case by (simp add: cellCounts_def)
next
  case (snoc c cs)
  have "set (map fst (setCount (JStr c) (cellCounts (map JStr cs)))) = insert (JStr c) (JStr ` set cs)"
    unfolding setCount_str_fst using snoc.IH by auto
  then show ?case by (simp add: cellCounts_snoc)
qed

lemma cellCounts_distinct: "distinct (map fst (cellCounts (map JStr cs)))"
proof (induction cs rule: rev_induct)
  case Nil
  show ?case by (simp add: cellCounts_def)
next
  case (snoc c cs)
  then show ?case by (simp add: cellCounts_snoc setCount_str_fst)
qed

lemma cellCounts_map_of:
  "map_of (cellCounts (map JStr cs)) (JStr c) =
     (if c \<in> set cs then Some (count_list cs c) else None)"
proof (induction cs rule: rev_induct)
  case Nil
  show ?case by (simp add: cellCounts_def)
next
  case (snoc x cs)
  then show ?case by (auto simp: cellCounts_snoc setCount_str_map_of)
qed

lemma count_list_replicate: "count_list (replicate n a) b = (if a = b then n else 0)"
  by (induction n) auto

lemma count_list_distinct: "distinct p \<Longrightarrow> count_list p c = (if c \<in> set p then 1 else 0)"
  by (induction p) auto

lemma count_list_keptCells:
  "distinct (map fst m) \<Longrightarrow>
   count_list (keptCells m) k =
     (case map_of m k of None \<Rightarrow> 0 | Some n \<Rightarrow> if 2 \<le> n then n else 0)"
proof (induction m)
  case Nil
  show ?case by (simp add: keptCells_def)
next
  case (Cons kv m)
  obtain k' n where kv: "kv = (k', n)" by (cases kv)
  have step: "keptCells (kv # m) = (if 2 \<le> n then replicate n k' else []) @ keptCells m"
    by (simp add: keptCells_def kv)
  have notin: "k = k' \<Longrightarrow> map_of m k = None"
    using Cons.prems by (simp add: kv map_of_eq_None_iff)
  have kept0: "map_of m k = None \<Longrightarrow> count_list (keptCells m) k = 0"
    using Cons.IH Cons.prems by simp
  show ?case
    unfolding step using Cons.IH Cons.prems notin kept0
    by (auto simp: kv count_list_replicate)
qed

lemma set_keptCells: "set (keptCells m) \<subseteq> fst ` set m"
  by (force simp: keptCells_def)

lemma asStrings_map_JStr: "asStrings (map JStr ss) = Some ss"
  by (induction ss) simp_all

lemma count_list_insertBy: "count_list (insertBy cmp x ys) c = count_list (x # ys) c"
  by (induction ys) auto

lemma count_list_arraySort: "count_list (arraySort cmp xs) c = count_list xs c"
proof (induction xs rule: rev_induct)
  case Nil
  show ?case by (simp add: arraySort_def)
next
  case (snoc x xs)
  have "arraySort cmp (xs @ [x]) = insertBy cmp x (arraySort cmp xs)"
    by (simp add: arraySort_def)
  then show ?case using snoc.IH by (simp add: count_list_insertBy)
qed

lemma arraySort_short: "length xs < 2 \<Longrightarrow> arraySort cmp xs = xs"
proof (cases xs)
  case Nil
  then show ?thesis by (simp add: arraySort_def)
next
  case (Cons x ys)
  assume "length xs < 2"
  with Cons have "ys = []" by simp
  with Cons show ?thesis by (simp add: arraySort_def)
qed

lemma sortCells_strings:
  "sortCells (map JStr ss) = Inr (map JStr (arraySort localeCompareNumeric ss))"
  by (simp add: sortCells_def asStrings_map_JStr arraySort_short)

lemma count_list_map_JStr: "count_list (map JStr ss) (JStr c) = count_list ss c"
  by (induction ss) auto

lemma keptCells_strings:
  "\<exists>ss. keptCells (cellCounts (map JStr cs)) = map JStr ss"
proof -
  have "set (keptCells (cellCounts (map JStr cs))) \<subseteq> range JStr"
    using set_keptCells [of "cellCounts (map JStr cs)"] cellCounts_fst_set [of cs] by auto
  then show ?thesis
    by (metis ex_map_conv subsetD rangeE)
qed

lemma count_list_kept_strings:
  "keptCells (cellCounts (map JStr cs)) = map JStr ss \<Longrightarrow>
   count_list ss c = (if 2 \<le> count_list cs c then count_list cs c else 0)"
proof -
  assume eq: "keptCells (cellCounts (map JStr cs)) = map JStr ss"
  have "count_list ss c = count_list (keptCells (cellCounts (map JStr cs))) (JStr c)"
    by (simp add: eq count_list_map_JStr)
  also have "\<dots> = (if 2 \<le> count_list cs c then count_list cs c else 0)"
    by (simp add: count_list_keptCells cellCounts_distinct cellCounts_map_of count_list_0_iff)
  finally show ?thesis .
qed

lemma count_list_concat_distinct:
  "list_all distinct passes \<Longrightarrow> count_list (concat passes) c = passesNaming c passes"
proof (induction passes)
  case Nil
  show ?case by (simp add: passesNaming_def)
next
  case (Cons p ps)
  have "distinct p" using Cons.prems by simp
  then have "count_list p c = (if c \<in> set p then 1 else 0)"
    by (rule count_list_distinct)
  then show ?case using Cons by (simp add: passesNaming_def)
qed












lemma aggregateVotes_cellArrays:
  "\<exists>ss. aggregateVotes (map cellArray passes) =
          Inr (map JStr (arraySort localeCompareNumeric ss)) \<and>
        (\<forall>c. count_list ss c =
           (if 2 \<le> count_list (concat passes) c then count_list (concat passes) c else 0))"
proof -
  obtain ss where ss: "keptCells (cellCounts (map JStr (concat passes))) = map JStr ss"
    using keptCells_strings by blast
  have "aggregateVotes (map cellArray passes) =
        Inr (map JStr (arraySort localeCompareNumeric ss))"
    by (simp add: aggregateVotes_def flat_cellArrays ss sortCells_strings)
  moreover have "\<forall>c. count_list ss c =
      (if 2 \<le> count_list (concat passes) c then count_list (concat passes) c else 0)"
    using count_list_kept_strings [OF ss] by simp
  ultimately show ?thesis by blast
qed

section \<open>Lemmas on the temperature schedule\<close>

lemma temperatures_evenly_spaced:
  assumes "2 \<le> n" "n < 4294967296"
  shows "temperatures cls n =
    Inr (map (\<lambda>i. Num ((if cls = AnthropicClient then 2 / 10 else 4 / 10) +
                         of_nat i * (6 / 10) / (of_int n - 1)))
          [0 ..< nat n])"
  using assms by (simp add: temperatures_def jsDivide_def)


lemma temperatures_four:
  "temperatures AnthropicClient (configuredPasses None) =
     Inr [Num (2 / 10), Num (4 / 10), Num (6 / 10), Num (8 / 10)]"
  by code_simp


section \<open>Lemmas on the double arithmetic\<close>

lemma floor_numeral_quotient:
  "\<lfloor>numeral a / numeral b :: rat\<rfloor> = numeral a div numeral b"
  using floor_divide_of_int_eq [of "numeral a" "numeral b", where ?'a = rat] by simp

lemma floor_neg_numeral_quotient:
  "\<lfloor>- (numeral a / numeral b) :: rat\<rfloor> = - numeral a div numeral b"
  using floor_divide_of_int_eq [of "- numeral a" "numeral b", where ?'a = rat] by simp

lemmas doubleArith =
  toDouble_def nearestDouble_def roundHalfEven_def twoToThe_def binaryExponent_def
  halvings.simps doublings.simps floor_numeral_quotient floor_neg_numeral_quotient
  ledgerNumber_def

lemma double_rounding_examples:
  "nearestDouble (4 / 10) = 3602879701896397 / 9007199254740992"
  "numPlus (toDouble (1 / 10)) (toDouble (2 / 10)) = Num (1351079888211149 / 4503599627370496)"
  "nearestDouble 9007199254740993 = 9007199254740992"
  "nearestDouble 9007199254740995 = 9007199254740996"
  by (simp_all add: doubleArith)

lemma costFormula_gpt41:
  "costFormula \<lparr>inputPrice = 2, outputPrice = 8\<rparr> 70 13 =
     Num (2250502776992565 / 9223372036854775808)"
  by (simp add: costFormula_def doubleArith)

lemma calculateCost_inherited_member:
  "clientClass c = OpenAIClient \<or> clientClass c = AnthropicClient \<Longrightarrow>
   getModel c = ''constructor'' \<Longrightarrow> calculateCost c t = NaN"
  by (auto simp: calculateCost_def readPricing_def MODEL_PRICING_def objectPrototypeMembers_def)

lemma calculateCost_costFormula:
  "calculateCost c t =
     (if clientClass c = InjectedClient then Num 0
      else case readPricing (getModel c) of
             NoProperty \<Rightarrow> Num 0
           | InheritedMember \<Rightarrow> NaN
           | OwnEntry pricing \<Rightarrow> costFormula pricing (tokInput t) (tokOutput t))"
  by (cases "clientClass c")
     (simp_all add: calculateCost_def costFormula_def split: pricingRead.splits)

section \<open>Lemmas on the pipeline\<close>

lemma transformImage_Inr:
  assumes "transformImage rt options = Inr out"
  shows "\<exists>layers. out = Png (optImage options) layers \<and>
           list_ex isGridLayer layers = (optAddGrid options \<and> \<not> isBuffer (optImage options))"
  using assms
  by (auto simp: transformImage_def Let_def split: sum.splits if_splits option.splits list.splits)

lemma passRequests_same_image:
  "map (\<lambda>r. (sentOriginalImage r, sentGridImage r)) (passRequests a imageBuffer prompt temps) =
   replicate (length temps) (imageBuffer, imageBuffer)"
  by (simp add: passRequests_def case_prod_unfold comp_def map_replicate_const)


lemma promiseAll_map_Inr: "promiseAll (map Inr xs) = Inr xs"
  by (induction xs) simp_all






lemma analyze_Inr:
  assumes "analyze rt a imageBuffer prompt imagePath contiguous = Inr (response, ledger)"
  shows "\<exists>initialCells highlightedImage t1 verified.
           consensusStage rt a imageBuffer prompt imagePath =
             Inr (initialCells, highlightedImage, t1) \<and>
           performAnalysis rt a highlightedImage
             (VerificationPrompt (case contiguous of None \<Rightarrow> False | Some b \<Rightarrow> b)
                (case prompt of None \<Rightarrow> [] | Some p \<Rightarrow> p) initialCells) t1 =
             Inr (verified, ledger) \<and>
           tokens response =
             \<lparr>tokInput = tokInput ledger, tokOutput = tokOutput ledger,
              tokTotal = tokInput ledger + tokOutput ledger,
              cost = calculateCost (client a) ledger,
              modelName = activeModel (client a)\<rparr>"
  using assms
  by (auto simp: analyze_def split: sum.splits)

lemma analyze_result:
  assumes "consensusStage rt a imageBuffer prompt imagePath =
             Inr (initialCells, highlightedImage, t1)"
    and "performAnalysis rt a highlightedImage
           (VerificationPrompt (case contiguous of None \<Rightarrow> False | Some b \<Rightarrow> b)
              (case prompt of None \<Rightarrow> [] | Some p \<Rightarrow> p) initialCells) t1 =
           Inr (verified, t2)"
    and "logVerified verified = Inr logged"
  shows "analyze rt a imageBuffer prompt imagePath contiguous =
     Inr (\<lparr>verifiedFields = filter (\<lambda>(k, v). k \<noteq> ''tokens'') logged,
           tokens = \<lparr>tokInput = tokInput t2, tokOutput = tokOutput t2,
                     tokTotal = tokInput t2 + tokOutput t2,
                     cost = calculateCost (client a) t2,
                     modelName = activeModel (client a)\<rparr>\<rparr>,
          t2)"
  by (simp add: analyze_def assms)





lemma flat_empty_results: "flat (replicate n (JArr [])) = []"
  by (induction n) simp_all

lemma aggregateVotes_empty_results: "aggregateVotes (replicate n (JArr [])) = Inr []"
  by (simp add: aggregateVotes_def flat_empty_results cellCounts_def keptCells_def sortCells_def)

lemma settlePasses_undecodable:
  "list_all (undecodablePass parse) replies \<Longrightarrow>
   fst (settlePasses parse replies t) = replicate (length replies) (JArr [])"
proof (induction replies arbitrary: t)
  case Nil
  show ?case by simp
next
  case (Cons r rs)
  from Cons.prems have r: "undecodablePass parse r" and rs: "list_all (undecodablePass parse) rs"
    by simp_all
  obtain c0 t0 where s0: "settlePass parse r t = (c0, t0)" by (cases "settlePass parse r t")
  from r s0 have c0: "c0 = JArr []"
    by (cases r rule: countedUsage.cases) (auto simp: parsedCells_def)
  from Cons.IH [OF rs, of t0] s0 c0 show ?case
    by (simp add: case_prod_unfold)
qed

lemma undecodable_passes_yield_no_cells:
  assumes "temperatures (clientClass (client a)) (numPasses a) = Inr temps"
    and "map (analyzePair (client a)) (passRequests a img prompt temps) = map Inr replies"
    and "list_all (undecodablePass (JSON_parse rt)) replies"
  shows "\<exists>t1. performInitialAnalysis rt a img prompt t = Inr ([], t1)"
proof -
  obtain results t1 where st: "settlePasses (JSON_parse rt) replies t = (results, t1)"
    by (cases "settlePasses (JSON_parse rt) replies t")
  with settlePasses_undecodable [OF assms(3), of t]
  have "results = replicate (length replies) (JArr [])" by simp
  with st assms(1,2) show ?thesis
    by (simp add: performInitialAnalysis_def promiseAll_map_Inr aggregateVotes_empty_results)
qed

lemma empty_consensus_reaches_refinement:
  assumes "consensusStage rt a imageBuffer prompt imagePath = Inr ([], highlightedImage, t1)"
  shows "analyze rt a imageBuffer prompt imagePath contiguous =
     (case performAnalysis rt a highlightedImage
             (VerificationPrompt (case contiguous of None \<Rightarrow> False | Some b \<Rightarrow> b)
                (case prompt of None \<Rightarrow> [] | Some p \<Rightarrow> p) []) t1 of
        Inl e \<Rightarrow> Inl e
      | Inr (verifiedAnalysis, t2) \<Rightarrow>
          (case logVerified verifiedAnalysis of
             Inl e \<Rightarrow> Inl e
           | Inr logged \<Rightarrow>
               Inr (\<lparr>verifiedFields = filter (\<lambda>(k, v). k \<noteq> ''tokens'') logged,
                     tokens = \<lparr>tokInput = tokInput t2, tokOutput = tokOutput t2,
                               tokTotal = tokInput t2 + tokOutput t2,
                               cost = calculateCost (client a) t2,
                               modelName = activeModel (client a)\<rparr>\<rparr>,
                    t2)))"
  using assms by (simp add: analyze_def)

section \<open>Lemmas on the labels\<close>

lemma decimal_digits: "list_all (\<lambda>d. 48 \<le> d \<and> d \<le> 57) (decimal n)"
proof (induction n rule: decimal.induct)
  case (1 n)
  show ?case
  proof (cases "n < 10")
    case True
    then show ?thesis by (subst decimal.simps) simp
  next
    case False
    with 1 show ?thesis by (subst decimal.simps) simp
  qed
qed

lemma decimal_value: "foldl (\<lambda>m d. 10 * m + (d - 48)) 0 (decimal n) = n"
proof (induction n rule: decimal.induct)
  case (1 n)
  show ?case
  proof (cases "n < 10")
    case True
    then show ?thesis by (subst decimal.simps) simp
  next
    case False
    with 1 show ?thesis by (subst decimal.simps) simp
  qed
qed

lemma length_concat_rows:
  "length (concat (map (\<lambda>row. map (f row) [0 ..< c]) [0 ..< n])) = n * c"
  by (induction n) simp_all

lemma nth_concat_rows:
  "r < n \<Longrightarrow> k < c \<Longrightarrow>
   concat (map (\<lambda>row. map (f row) [0 ..< c]) [0 ..< n]) ! (r * c + k) = f r k"
proof (induction n)
  case 0
  then show ?case by simp
next
  case (Suc n)
  show ?case
  proof (cases "r < n")
    case True
    then have "Suc r * c \<le> n * c" by (simp only: Suc_le_eq [symmetric] mult_le_mono1)
    with \<open>k < c\<close> have "r * c + k < n * c" by simp
    with True Suc show ?thesis
      by (simp add: nth_append length_concat_rows)
  next
    case False
    with Suc.prems have "r = n" by simp
    with \<open>k < c\<close> show ?thesis
      by (simp add: nth_append length_concat_rows)
  qed
qed

lemma row_letters:
  "list_all (\<lambda>row. (of_char (''ABCDEFGHIJKLMNOPQRSTUVWXYZ'' ! row) :: nat) = 65 + row) [0 ..< 26]"
  by code_simp

section \<open>Claims\<close>

text \<open>
  C1 (as amended).  The aggregation counts occurrences in the concatenation of all pass
  results: a cell with fewer than two occurrences is absent from the output, a cell with
  \<open>k \<ge> 2\<close> occurrences stands in it exactly \<open>k\<close> times.  Repeats inside one pass are
  not collapsed, each counts.  When no pass repeats a cell, the number of occurrences is
  the number of distinct passes naming the cell, and the output holds a cell named by
  \<open>k \<ge> 2\<close> passes exactly \<open>k\<close> times and no cell named by fewer than two.
\<close>

theorem aggregateVotes_counts_occurrences:
  "\<exists>out. aggregateVotes (map cellArray passes) = Inr (map JStr out) \<and>
     (\<forall>c. count_list out c =
        (if 2 \<le> count_list (concat passes) c then count_list (concat passes) c else 0)) \<and>
     (list_all distinct passes \<longrightarrow>
        (\<forall>c. count_list out c =
           (if 2 \<le> passesNaming c passes then passesNaming c passes else 0)))"
proof -
  obtain ss where agg: "aggregateVotes (map cellArray passes) =
        Inr (map JStr (arraySort localeCompareNumeric ss))"
    and cnt: "\<forall>c. count_list ss c =
        (if 2 \<le> count_list (concat passes) c then count_list (concat passes) c else 0)"
    using aggregateVotes_cellArrays by blast
  let ?out = "arraySort localeCompareNumeric ss"
  have occ: "\<forall>c. count_list ?out c =
      (if 2 \<le> count_list (concat passes) c then count_list (concat passes) c else 0)"
    using cnt by (simp add: count_list_arraySort)
  have "list_all distinct passes \<longrightarrow>
      (\<forall>c. count_list ?out c = (if 2 \<le> passesNaming c passes then passesNaming c passes else 0))"
    using occ count_list_concat_distinct [of passes] by simp
  with agg occ show ?thesis by blast
qed

theorem aggregateVotes_counts_occurrences_witness:
  "list_all distinct
     [[''A1'', ''B1'', ''C1''], [''B1'', ''C1'', ''D1''], [''C1'', ''D1'', ''E1''],
      [''D1'', ''E1'', ''F1'']] \<and>
   aggregateVotes (map cellArray
     [[''A1'', ''B1'', ''C1''], [''B1'', ''C1'', ''D1''], [''C1'', ''D1'', ''E1''],
      [''D1'', ''E1'', ''F1'']]) =
     Inr (map JStr [''B1'', ''B1'', ''C1'', ''C1'', ''C1'', ''D1'', ''D1'', ''D1'', ''E1'', ''E1'']) \<and>
   passesNaming ''A1''
     [[''A1'', ''B1'', ''C1''], [''B1'', ''C1'', ''D1''], [''C1'', ''D1'', ''E1''],
      [''D1'', ''E1'', ''F1'']] = 1 \<and>
   passesNaming ''C1''
     [[''A1'', ''B1'', ''C1''], [''B1'', ''C1'', ''D1''], [''C1'', ''D1'', ''E1''],
      [''D1'', ''E1'', ''F1'']] = 3"
proof -
  let ?P = "[[''A1'', ''B1'', ''C1''], [''B1'', ''C1'', ''D1''], [''C1'', ''D1'', ''E1''],
      [''D1'', ''E1'', ''F1'']]"
  have d: "list_all distinct ?P" by code_simp
  have a: "aggregateVotes (map cellArray ?P) =
     Inr (map JStr [''B1'', ''B1'', ''C1'', ''C1'', ''C1'', ''D1'', ''D1'', ''D1'', ''E1'', ''E1''])"
    by code_simp
  have n1: "passesNaming ''A1'' ?P = 1" by code_simp
  have n3: "passesNaming ''C1'' ?P = 3" by code_simp
  show ?thesis
    using aggregateVotes_counts_occurrences [of ?P] d a n1 n3 by simp
qed

theorem repeats_in_one_pass_counterexample:
  "passesNaming ''A1'' [[''A1'', ''A1'']] = 1 \<and>
   aggregateVotes (map cellArray [[''A1'', ''A1'']]) = Inr [JStr ''A1'', JStr ''A1'']"
  by code_simp

text \<open>
  C2.  For one configured pass the schedule is not a mid-range temperature: the formula
  is applied as for any other number of passes, \<^verbatim>\<open>(0 * 0.6) / (1 - 1)\<close> is \<^verbatim>\<open>NaN\<close>, and the
  single temperature is \<^verbatim>\<open>NaN\<close> for either backend family.  (For two passes or more the
  schedule is the evenly spaced one, lemma \<open>temperatures_evenly_spaced\<close>; for four passes
  over 0.2 to 0.8 it is 0.2, 0.4, 0.6, 0.8, lemma \<open>temperatures_four\<close>.)
\<close>

theorem temperatures_single_pass:
  "temperatures AnthropicClient (configuredPasses (Some 1)) = Inr [NaN] \<and>
   temperatures OpenAIClient (configuredPasses (Some 1)) = Inr [NaN]"
  by (simp add: temperatures_def jsDivide_def configuredPasses_def)

text \<open>
  C3.  A pass whose text decodes to a value of the wrong shape is not always without
  effect.  With \<^verbatim>\<open>{"cells":"B2"}\<close> (a string where the array belongs) the pass votes for
  B2: with one well-formed pass naming B2 the cell reaches two votes.  With
  \<^verbatim>\<open>{"cells":[7,7]}\<close> the two numbers pass the vote filter and the sort throws a TypeError,
  which ends the invocation.  (Passes whose text cannot be decoded give no cells and do
  not end it: lemmas \<open>undecodable_passes_yield_no_cells\<close> and
  \<open>empty_consensus_reaches_refinement\<close>.)
\<close>

theorem wrong_shape_votes_or_aborts:
  "performInitialAnalysis exampleRuntime
     (exampleAnalyzer
        (exampleClient OpenAIClient ''gpt-4.1''
           [answer cellsAsStringText, answer cellsB2Text] (verdict rustRegionsText)) 2)
     (Bytes [1, 2, 3]) (Some ''Find rust spots'') \<lparr>tokInput = 0, tokOutput = 0\<rparr> =
     Inr ([JStr ''B2'', JStr ''B2''], \<lparr>tokInput = 20, tokOutput = 4\<rparr>) \<and>
   analyze exampleRuntime
     (exampleAnalyzer
        (exampleClient OpenAIClient ''gpt-4.1''
           [answer cellsAsNumbersText, answer cellsB2Text, answer cellsB2Text, answer cellsB2Text]
           (verdict rustRegionsText)) 4)
     (Bytes [1, 2, 3]) (Some ''Find rust spots'') None None = Inl TypeError"
  by code_simp

text \<open>
  C4.  When the stages before the verification have succeeded and the text of the
  verification response is one that \<^verbatim>\<open>JSON.parse\<close> rejects, \<^verbatim>\<open>analyze\<close> fails with the parse
  error: no result is returned and no region set is made up.
\<close>

theorem refinement_parse_failure_propagates:
  assumes "consensusStage rt a imageBuffer prompt imagePath =
             Inr (initialCells, highlightedImage, t1)"
    and "analyzeSingle (client a) highlightedImage
           (VerificationPrompt (case contiguous of None \<Rightarrow> False | Some b \<Rightarrow> b)
              (case prompt of None \<Rightarrow> [] | Some p \<Rightarrow> p) initialCells) = Inr reply"
    and "replyText reply = Some body"
    and "JSON_parse rt body = None"
  shows "analyze rt a imageBuffer prompt imagePath contiguous = Inl ParseFailure"
  using assms
  by (cases reply) (auto simp: analyze_def performAnalysis_def)

theorem refinement_parse_failure_propagates_witness:
  "consensusStage exampleRuntime
     (exampleAnalyzer
        (exampleClient AnthropicClient ''claude-3-7-sonnet-latest''
           [answer cellsB2Text, answer cellsB2Text, answer cellsB2Text, answer cellsB2Text]
           (verdict ''not json'')) 4)
     (Bytes [1, 2, 3]) (Some ''Find rust spots'') None =
     Inr ([JStr ''B2'', JStr ''B2'', JStr ''B2'', JStr ''B2''],
          Png (BufferInput (Bytes [1, 2, 3]))
            [HighlightLayer
               [Region [] ''Initial pass'' ''Pending verification''
                  [JStr ''B2'', JStr ''B2'', JStr ''B2'', JStr ''B2'']]
               (Some [Highlight])],
          \<lparr>tokInput = 40, tokOutput = 8\<rparr>) \<and>
   replyText (verdict ''not json'') = Some ''not json'' \<and>
   JSON_parse exampleRuntime ''not json'' = None \<and>
   analyze exampleRuntime
     (exampleAnalyzer
        (exampleClient AnthropicClient ''claude-3-7-sonnet-latest''
           [answer cellsB2Text, answer cellsB2Text, answer cellsB2Text, answer cellsB2Text]
           (verdict ''not json'')) 4)
     (Bytes [1, 2, 3]) (Some ''Find rust spots'') None None = Inl ParseFailure"
proof -
  let ?a = "exampleAnalyzer
        (exampleClient AnthropicClient ''claude-3-7-sonnet-latest''
           [answer cellsB2Text, answer cellsB2Text, answer cellsB2Text, answer cellsB2Text]
           (verdict ''not json'')) 4"
  let ?cells = "[JStr ''B2'', JStr ''B2'', JStr ''B2'', JStr ''B2'']"
  let ?hi = "Png (BufferInput (Bytes [1, 2, 3]))
            [HighlightLayer
               [Region [] ''Initial pass'' ''Pending verification'' ?cells]
               (Some [Highlight])]"
  have stage: "consensusStage exampleRuntime ?a (Bytes [1, 2, 3]) (Some ''Find rust spots'') None =
     Inr (?cells, ?hi, \<lparr>tokInput = 40, tokOutput = 8\<rparr>)"
    by code_simp
  have call: "analyzeSingle (client ?a) ?hi
      (VerificationPrompt (case None of None \<Rightarrow> False | Some b \<Rightarrow> b)
         (case Some ''Find rust spots'' of None \<Rightarrow> [] | Some p \<Rightarrow> p) ?cells) =
      Inr (verdict ''not json'')"
    by (simp add: exampleAnalyzer_def exampleClient_def)
  have body: "replyText (verdict ''not json'') = Some ''not json''"
    by (simp add: verdict_def)
  have undecodable: "JSON_parse exampleRuntime ''not json'' = None"
    by code_simp
  from refinement_parse_failure_propagates [OF stage call body undecodable]
  show ?thesis using stage body undecodable by simp
qed

text \<open>
  C5.  Every consensus pass of an invocation is handed one and the same buffer as both
  images of the pair: the PNG that the grid overlay step returned, which is the buffer
  \<^verbatim>\<open>analyze\<close> was given, encoded again with no overlay added.  No second image is sent.
  When the given buffer is the original image, the pair lacks the grid; when it carries
  the grid already (as the buffer \<^verbatim>\<open>Throughmark.analyze\<close> passes does), the pair lacks the
  original.
\<close>

theorem consensus_sends_one_buffer_twice:
  "map_sum id (map (\<lambda>r. (sentOriginalImage r, sentGridImage r)))
     (consensusRequests exampleRuntime
        (exampleAnalyzer
           (exampleClient OpenAIClient ''gpt-4.1''
              [answer cellsB2Text, answer cellsB2Text, answer cellsB2Text, answer cellsB2Text]
              (verdict rustRegionsText)) 4)
        (Bytes [1, 2, 3]) (Some ''Find rust spots'')) =
   Inr (replicate 4 (Png (BufferInput (Bytes [1, 2, 3])) [], Png (BufferInput (Bytes [1, 2, 3])) []))"
  by code_simp






text \<open>
  C8 (as amended).  For a client of one of the two shipped classes whose model name is a
  key of the price table, the cost in the result is the value of
  \<^verbatim>\<open>input * price.input / 1e6 + output * price.output / 1e6\<close> in double arithmetic, for the
  tokens of the result and the entry under that name.  The cost is 0 when the table has
  no entry under the model name, and also for an injected client of neither class,
  whatever its \<^verbatim>\<open>getModel()\<close> returns; its result carries the model name \<^verbatim>\<open>unknown\<close>.  The
  invocation succeeds in each case.  Model names that are members every object inherits
  (such as \<^verbatim>\<open>constructor\<close>) are left aside.
\<close>

theorem cost_by_class_and_price_entry:
  assumes "analyze rt a imageBuffer prompt imagePath contiguous = Inr (response, ledger)"
    and "getModel (client a) \<notin> set objectPrototypeMembers"
  shows "cost (tokens response) =
     (if clientClass (client a) = InjectedClient then Num 0
      else case MODEL_PRICING (getModel (client a)) of
             None \<Rightarrow> Num 0
           | Some pricing \<Rightarrow>
               costFormula pricing (tokInput (tokens response)) (tokOutput (tokens response))) \<and>
   modelName (tokens response) =
     (if clientClass (client a) = InjectedClient then ''unknown'' else getModel (client a))"
proof -
  from analyze_Inr [OF assms(1)] obtain t where
    "tokens response =
       \<lparr>tokInput = tokInput t, tokOutput = tokOutput t, tokTotal = tokInput t + tokOutput t,
        cost = calculateCost (client a) t, modelName = activeModel (client a)\<rparr>"
    by blast
  then show ?thesis
    using assms(2)
    by (cases "clientClass (client a)")
       (simp_all add: calculateCost_costFormula readPricing_def activeModel_def
          split: option.splits)
qed

theorem cost_by_class_and_price_entry_witness:
  "analyze exampleRuntime
     (exampleAnalyzer
        (exampleClient OpenAIClient ''gpt-4.1''
           [answer cellsB2Text, answer cellsB2Text, answer cellsB2Text, answer cellsB2Text]
           (verdict rustRegionsText)) 4)
     (Bytes [1, 2, 3]) (Some ''Find rust spots'') None None =
   Inr (\<lparr>verifiedFields =
           [(''regions'', JArr [JObj [(''title'', JStr ''Rust''), (''cells'', JArr [JStr ''B2''])]]),
            (''summary'', JStr ''found rust'')],
         tokens = \<lparr>tokInput = 70, tokOutput = 13, tokTotal = 83,
                   cost = Num (2250502776992565 / 9223372036854775808),
                   modelName = ''gpt-4.1''\<rparr>\<rparr>,
        \<lparr>tokInput = 70, tokOutput = 13\<rparr>) \<and>
   ''gpt-4.1'' \<notin> set objectPrototypeMembers \<and>
   MODEL_PRICING ''gpt-4.1'' = Some \<lparr>inputPrice = 2, outputPrice = 8\<rparr> \<and>
   costFormula \<lparr>inputPrice = 2, outputPrice = 8\<rparr> 70 13 =
     Num (2250502776992565 / 9223372036854775808) \<and>
   analyze exampleRuntime
     (exampleAnalyzer
        (exampleClient OpenAIClient ''gpt-4o''
           [answer cellsB2Text, answer cellsB2Text, answer cellsB2Text, answer cellsB2Text]
           (verdict rustRegionsText)) 4)
     (Bytes [1, 2, 3]) (Some ''Find rust spots'') None None =
   Inr (\<lparr>verifiedFields =
           [(''regions'', JArr [JObj [(''title'', JStr ''Rust''), (''cells'', JArr [JStr ''B2''])]]),
            (''summary'', JStr ''found rust'')],
         tokens = \<lparr>tokInput = 70, tokOutput = 13, tokTotal = 83, cost = Num 0,
                   modelName = ''gpt-4o''\<rparr>\<rparr>,
        \<lparr>tokInput = 70, tokOutput = 13\<rparr>) \<and>
   ''gpt-4o'' \<notin> set objectPrototypeMembers \<and>
   MODEL_PRICING ''gpt-4o'' = None"
proof -
  let ?replies = "[answer cellsB2Text, answer cellsB2Text, answer cellsB2Text, answer cellsB2Text]"
  let ?a = "exampleAnalyzer (exampleClient OpenAIClient ''gpt-4.1'' ?replies (verdict rustRegionsText)) 4"
  let ?b = "exampleAnalyzer (exampleClient OpenAIClient ''gpt-4o'' ?replies (verdict rustRegionsText)) 4"
  let ?cells = "[JStr ''B2'', JStr ''B2'', JStr ''B2'', JStr ''B2'']"
  let ?hi = "Png (BufferInput (Bytes [1, 2, 3]))
        [HighlightLayer [Region [] ''Initial pass'' ''Pending verification'' ?cells]
           (Some [Highlight])]"
  let ?fields =
    "[(''regions'', JArr [JObj [(''title'', JStr ''Rust''), (''cells'', JArr [JStr ''B2''])]]),
      (''summary'', JStr ''found rust'')]"
  have stage_a: "consensusStage exampleRuntime ?a (Bytes [1, 2, 3]) (Some ''Find rust spots'') None =
      Inr (?cells, ?hi, \<lparr>tokInput = 40, tokOutput = 8\<rparr>)"
    by code_simp
  have verify_a: "performAnalysis exampleRuntime ?a ?hi
      (VerificationPrompt (case None of None \<Rightarrow> False | Some b \<Rightarrow> b)
         (case Some ''Find rust spots'' of None \<Rightarrow> [] | Some p \<Rightarrow> p) ?cells)
      \<lparr>tokInput = 40, tokOutput = 8\<rparr> =
      Inr (JObj ?fields, \<lparr>tokInput = 70, tokOutput = 13\<rparr>)"
    by code_simp
  have stage_b: "consensusStage exampleRuntime ?b (Bytes [1, 2, 3]) (Some ''Find rust spots'') None =
      Inr (?cells, ?hi, \<lparr>tokInput = 40, tokOutput = 8\<rparr>)"
    by code_simp
  have verify_b: "performAnalysis exampleRuntime ?b ?hi
      (VerificationPrompt (case None of None \<Rightarrow> False | Some b \<Rightarrow> b)
         (case Some ''Find rust spots'' of None \<Rightarrow> [] | Some p \<Rightarrow> p) ?cells)
      \<lparr>tokInput = 40, tokOutput = 8\<rparr> =
      Inr (JObj ?fields, \<lparr>tokInput = 70, tokOutput = 13\<rparr>)"
    by code_simp
  have logged: "logVerified (JObj ?fields) = Inr ?fields"
    by code_simp
  have names: "getModel (client ?a) = ''gpt-4.1''" "getModel (client ?b) = ''gpt-4o''"
    "clientClass (client ?a) = OpenAIClient" "clientClass (client ?b) = OpenAIClient"
    by (simp_all add: exampleAnalyzer_def exampleClient_def)
  have own: "''gpt-4.1'' \<notin> set objectPrototypeMembers" "''gpt-4o'' \<notin> set objectPrototypeMembers"
    by (simp_all add: objectPrototypeMembers_def)
  have entries: "MODEL_PRICING ''gpt-4.1'' = Some \<lparr>inputPrice = 2, outputPrice = 8\<rparr>"
    "MODEL_PRICING ''gpt-4o'' = None"
    by (simp_all add: MODEL_PRICING_def)
  note run_a = analyze_result [OF stage_a verify_a logged]
  note run_b = analyze_result [OF stage_b verify_b logged]
  have cost_a: "calculateCost (client ?a) \<lparr>tokInput = 70, tokOutput = 13\<rparr> =
      Num (2250502776992565 / 9223372036854775808)"
    using cost_by_class_and_price_entry [OF run_a] own(1)
    by (simp add: names entries costFormula_gpt41)
  have cost_b: "calculateCost (client ?b) \<lparr>tokInput = 70, tokOutput = 13\<rparr> = Num 0"
    using cost_by_class_and_price_entry [OF run_b] own(2)
    by (simp add: names entries)
  show ?thesis
    using run_a run_b cost_a cost_b own entries costFormula_gpt41
    by (simp add: activeModel_def names)
qed

theorem injected_client_cost_counterexample:
  "map_sum id (cost \<circ> tokens \<circ> fst)
     (analyze exampleRuntime
        (exampleAnalyzer
           (exampleClient InjectedClient ''gpt-4.1''
              [answer cellsB2Text, answer cellsB2Text, answer cellsB2Text, answer cellsB2Text]
              (verdict rustRegionsText)) 4)
        (Bytes [1, 2, 3]) (Some ''Find rust spots'') None None) = Inr (Num 0) \<and>
   getModel
     (exampleClient InjectedClient ''gpt-4.1''
        [answer cellsB2Text, answer cellsB2Text, answer cellsB2Text, answer cellsB2Text]
        (verdict rustRegionsText)) = ''gpt-4.1'' \<and>
   MODEL_PRICING ''gpt-4.1'' = Some \<lparr>inputPrice = 2, outputPrice = 8\<rparr> \<and>
   costFormula \<lparr>inputPrice = 2, outputPrice = 8\<rparr> 70 13 =
     Num (2250502776992565 / 9223372036854775808) \<and>
   (2250502776992565 / 9223372036854775808 :: rat) \<noteq> 70 * 2 / 1000000 + 13 * 8 / 1000000"
proof -
  have "map_sum id (cost \<circ> tokens \<circ> fst)
     (analyze exampleRuntime
        (exampleAnalyzer
           (exampleClient InjectedClient ''gpt-4.1''
              [answer cellsB2Text, answer cellsB2Text, answer cellsB2Text, answer cellsB2Text]
              (verdict rustRegionsText)) 4)
        (Bytes [1, 2, 3]) (Some ''Find rust spots'') None None) = Inr (Num 0)"
    by code_simp
  moreover have "MODEL_PRICING ''gpt-4.1'' = Some \<lparr>inputPrice = 2, outputPrice = 8\<rparr>"
    by (simp add: MODEL_PRICING_def)
  ultimately show ?thesis
    by (simp add: costFormula_gpt41 exampleClient_def)
qed

text \<open>
  C9 (as amended).  The label of the cell in row \<open>row\<close> and column \<open>col\<close>, both counted
  from 0, is one code unit followed by the decimal digits of \<open>col + 1\<close>, and it is the
  label \<^verbatim>\<open>generateLabels\<close> puts at that place of the grid.  For \<open>row \<le> 25\<close> the code unit is
  the letter \<open>chr('A' + row)\<close>, so row 0 and column number 1 give A1 and row 25 and
  column number 26 give Z26.  For \<open>row > 25\<close> nothing fails: the code unit is
  \<open>(65 + row) mod 2\<^sup>1\<^sup>6\<close>, which is no letter for row 26 (the label is \<^verbatim>\<open>[1\<close>).
\<close>

theorem cellId_letter_and_number:
  "(row \<le> 25 \<longrightarrow> hd (cellId row col) = of_char (''ABCDEFGHIJKLMNOPQRSTUVWXYZ'' ! row)) \<and>
   (25 < row \<longrightarrow> hd (cellId row col) = (65 + row) mod 65536) \<and>
   tl (cellId row col) = decimal (col + 1) \<and>
   list_all (\<lambda>d. 48 \<le> d \<and> d \<le> 57) (decimal (col + 1)) \<and>
   foldl (\<lambda>m d. 10 * m + (d - 48)) 0 (decimal (col + 1)) = col + 1 \<and>
   (row < rows \<and> col < cols \<longrightarrow> generateLabels rows cols ! (row * cols + col) = cellId row col)"
proof -
  have "row \<le> 25 \<Longrightarrow> (of_char (''ABCDEFGHIJKLMNOPQRSTUVWXYZ'' ! row) :: nat) = 65 + row"
    using row_letters by (simp only: list_all_iff) simp
  then have "row \<le> 25 \<longrightarrow> hd (cellId row col) = of_char (''ABCDEFGHIJKLMNOPQRSTUVWXYZ'' ! row)"
    by (simp add: cellId_def fromCharCode_def)
  moreover have "row < rows \<and> col < cols \<longrightarrow>
      generateLabels rows cols ! (row * cols + col) = cellId row col"
    by (simp add: generateLabels_def nth_concat_rows)
  ultimately show ?thesis
    by (simp add: decimal_digits decimal_value) (simp add: cellId_def fromCharCode_def)
qed

theorem cellId_letter_and_number_witness:
  "cellId 0 0 = utf16 ''A1'' \<and> cellId 25 25 = utf16 ''Z26'' \<and>
   generateLabels 26 26 ! (25 * 26 + 25) = utf16 ''Z26'' \<and>
   hd (utf16 ''Z26'') = of_char (''ABCDEFGHIJKLMNOPQRSTUVWXYZ'' ! 25)"
proof -
  have a: "cellId 0 0 = utf16 ''A1''"
    by (simp add: cellId_def fromCharCode_def utf16_def decimal.simps)
  have z: "cellId 25 25 = utf16 ''Z26''"
    by (simp add: cellId_def fromCharCode_def utf16_def decimal.simps)
  from cellId_letter_and_number [of 25 25 26 26] z a show ?thesis by simp
qed

theorem row_26_counterexample: "cellId 26 0 = utf16 ''[1''"
  by (simp add: cellId_def fromCharCode_def utf16_def decimal.simps)

text \<open>
  C10.  \<^verbatim>\<open>transformImage\<close> composites a grid exactly when \<^verbatim>\<open>addGrid\<close> is set and the image is
  given as a file path: for a buffer no grid is drawn, whatever \<^verbatim>\<open>addGrid\<close> says.  The grid
  overlay step of \<^verbatim>\<open>analyze\<close> passes a buffer, and what it gets back is the PNG of that
  buffer with no overlay.
\<close>

theorem grid_only_for_file_path:
  "(transformImage rt options = Inr out \<longrightarrow>
      (\<exists>layers. out = Png (optImage options) layers \<and>
         list_ex isGridLayer layers = (optAddGrid options \<and> \<not> isBuffer (optImage options)))) \<and>
   (transformImage rt (gridOverlayOptions a imageBuffer) = Inr out' \<longrightarrow>
      out' = Png (BufferInput imageBuffer) [])"
proof -
  have "transformImage rt (gridOverlayOptions a imageBuffer) = Inr out' \<Longrightarrow>
        out' = Png (BufferInput imageBuffer) []"
    by (auto simp: transformImage_def gridOverlayOptions_def Let_def
        split: sum.splits if_splits option.splits)
  then show ?thesis using transformImage_Inr by blast
qed

theorem grid_only_for_file_path_witness:
  "transformImage exampleRuntime
     \<lparr>optImage = BufferInput (Bytes [1, 2, 3]), optAddGrid = True, optRegions = None,
      optRows = 5, optCols = 5, optAnnotations = None\<rparr> =
     Inr (Png (BufferInput (Bytes [1, 2, 3])) []) \<and>
   transformImage exampleRuntime
     \<lparr>optImage = FilePath ''photo.png'', optAddGrid = True, optRegions = None,
      optRows = 5, optCols = 5, optAnnotations = None\<rparr> =
     Inr (Png (FilePath ''photo.png'') [GridLayer 5 5 100 100]) \<and>
   transformImage exampleRuntime
     (gridOverlayOptions
        (exampleAnalyzer (exampleClient OpenAIClient ''gpt-4.1'' [] (verdict rustRegionsText)) 4)
        (Bytes [1, 2, 3])) =
     Inr (Png (BufferInput (Bytes [1, 2, 3])) [])"
proof -
  let ?o = "\<lparr>optImage = BufferInput (Bytes [1, 2, 3]), optAddGrid = True, optRegions = None,
      optRows = 5, optCols = 5, optAnnotations = None\<rparr>"
  let ?a = "exampleAnalyzer (exampleClient OpenAIClient ''gpt-4.1'' [] (verdict rustRegionsText)) 4"
  have b: "transformImage exampleRuntime ?o = Inr (Png (BufferInput (Bytes [1, 2, 3])) [])"
    by code_simp
  have f: "transformImage exampleRuntime
     \<lparr>optImage = FilePath ''photo.png'', optAddGrid = True, optRegions = None,
      optRows = 5, optCols = 5, optAnnotations = None\<rparr> =
     Inr (Png (FilePath ''photo.png'') [GridLayer 5 5 100 100])"
    by code_simp
  have g: "transformImage exampleRuntime (gridOverlayOptions ?a (Bytes [1, 2, 3])) =
     Inr (Png (BufferInput (Bytes [1, 2, 3])) [])"
    using grid_only_for_file_path
      [of exampleRuntime ?o "Png (BufferInput (Bytes [1, 2, 3])) []" ?a "Bytes [1, 2, 3]"
          "Png (BufferInput (Bytes [1, 2, 3])) []"] b
    by (simp add: gridOverlayOptions_def exampleAnalyzer_def)
  from b f g show ?thesis by simp
qed

end
